theory Spec2Isabelle
  imports Main
begin

section \<open>Typography Base component (components/typography/Base/index.tsx)\<close>

text \<open>
  A shallow embedding of the \<^verbatim>\<open>Base\<close> component: its props and normalised
  configurations, the hook state of one component instance, the event handlers as
  state transformers that also log the callbacks they invoke, and the values computed
  in the body of a render.
\<close>

subsection \<open>React nodes and decorations\<close>

text \<open>
  The part of \<^verbatim>\<open>React.ReactNode\<close> the component builds or inspects. The three
  operation controls are kept abstract; the copy control carries the \<^verbatim>\<open>copied\<close>
  flag it is rendered with. Numeric children are left out.
\<close>

datatype control = ExpandControl | EditControl | CopyControl bool

datatype node =
    Text string
  | Element string "node list"
  | Fragment "node list"
  | Array "node list"
  | Control control
  | Null
  | Undefined
  | Boolean bool

text \<open>\<^verbatim>\<open>boolean | undefined\<close> flags; \<^verbatim>\<open>!needed\<close> holds for undefined and false.\<close>

fun truthy :: "bool option \<Rightarrow> bool" where
  "truthy None = False"
| "truthy (Some b) = b"

subsection \<open>Configurations and props\<close>

text \<open>
  A callback prop is an opaque function value; the component only tests whether it is
  present and calls it. The label tells callbacks apart in the log of invocations.
\<close>

datatype callback = Callback nat

datatype trigger = TriggerIcon | TriggerText

text \<open>
  The option interfaces, every field optional as in the source. Fields that only
  choose an icon, a tooltip text or a size of the editor are left out. The field
  \<^verbatim>\<open>text\<close> of \<^verbatim>\<open>CopyConfig\<close> is \<open>copyText\<close> here; \<^verbatim>\<open>rows\<close> is a whole number.
\<close>

record CopyConfig =
  copyText :: "string option"
  onCopy :: "callback option"

record EditConfig =
  editing :: "bool option"
  onStart :: "callback option"
  onChange :: "callback option"
  onCancel :: "callback option"
  onEnd :: "callback option"
  triggerType :: "trigger list option"

record EllipsisConfig =
  rows :: "int option"
  expandable :: "bool option"
  suffix :: "string option"
  symbol :: "node option"
  onExpand :: "callback option"
  onEllipsis :: "callback option"
  tooltip :: "node option"

text \<open>
  A prop of type \<^verbatim>\<open>boolean | Config\<close> that may be absent. The prop \<^verbatim>\<open>type\<close> of
  \<^verbatim>\<open>BlockProps\<close> is \<open>baseType\<close> here.
\<close>

datatype 'c config_prop = Absent | Flag bool | Config 'c

datatype BaseType = secondary | success | warning | danger

record BlockProps =
  children :: node
  editable :: "EditConfig config_prop"
  copyable :: "CopyConfig config_prop"
  baseType :: "BaseType option"
  disabled :: "bool option"
  ellipsis :: "EllipsisConfig config_prop"
  code :: "bool option"
  mark :: "bool option"
  underline :: "bool option"
  delete :: "bool option"
  strong :: "bool option"
  keyboard :: "bool option"
  italic :: "bool option"

text \<open>
  The two style probes evaluated once when the module is loaded
  (\<^verbatim>\<open>isStyleSupport('webkitLineClamp')\<close>, \<^verbatim>\<open>isStyleSupport('textOverflow')\<close>).
\<close>

record env =
  isLineClampSupport :: bool
  isTextOverflowSupport :: bool

text \<open>
  Modelled from the spec: the hook \<^verbatim>\<open>useMergedConfig\<close> (hooks/useMergedConfig) is
  not among the sources. Per the configuration normalizer of the spec it is a pure
  function of the prop: enabled when the prop is truthy, and the configuration is the
  defaults merged with the prop when the prop is an object. The merge of the defaults
  with an object is the first argument.
\<close>

definition useMergedConfig :: "('c \<Rightarrow> 'c \<Rightarrow> 'c) \<Rightarrow> 'c config_prop \<Rightarrow> 'c \<Rightarrow> bool \<times> 'c" where
  "useMergedConfig merge propConfig templateConfig =
     (case propConfig of
        Absent \<Rightarrow> (False, templateConfig)
      | Flag b \<Rightarrow> (b, templateConfig)
      | Config c \<Rightarrow> (True, merge templateConfig c))"

definition emptyEditConfig :: EditConfig where
  "emptyEditConfig = \<lparr>editing = None, onStart = None, onChange = None, onCancel = None,
     onEnd = None, triggerType = None\<rparr>"

definition emptyCopyConfig :: CopyConfig where
  "emptyCopyConfig = \<lparr>copyText = None, onCopy = None\<rparr>"

text \<open>The template \<^verbatim>\<open>{ expandable: false }\<close> passed for the ellipsis prop.\<close>

definition ellipsisTemplate :: EllipsisConfig where
  "ellipsisTemplate = \<lparr>rows = None, expandable = Some False, suffix = None, symbol = None,
     onExpand = None, onEllipsis = None, tooltip = None\<rparr>"

text \<open>Only \<^verbatim>\<open>expandable\<close> has a default, so only it is merged.\<close>

definition mergeEllipsis :: "EllipsisConfig \<Rightarrow> EllipsisConfig \<Rightarrow> EllipsisConfig" where
  "mergeEllipsis template c =
     c\<lparr>expandable := (case expandable c of None \<Rightarrow> expandable template | Some b \<Rightarrow> Some b)\<rparr>"

definition enableEdit :: "BlockProps \<Rightarrow> bool" where
  "enableEdit props = fst (useMergedConfig (\<lambda>t c. c) (editable props) emptyEditConfig)"

definition editConfig :: "BlockProps \<Rightarrow> EditConfig" where
  "editConfig props = snd (useMergedConfig (\<lambda>t c. c) (editable props) emptyEditConfig)"

definition enableCopy :: "BlockProps \<Rightarrow> bool" where
  "enableCopy props = fst (useMergedConfig (\<lambda>t c. c) (copyable props) emptyCopyConfig)"

definition copyConfig :: "BlockProps \<Rightarrow> CopyConfig" where
  "copyConfig props = snd (useMergedConfig (\<lambda>t c. c) (copyable props) emptyCopyConfig)"

definition enableEllipsis :: "BlockProps \<Rightarrow> bool" where
  "enableEllipsis props = fst (useMergedConfig mergeEllipsis (ellipsis props) ellipsisTemplate)"

definition ellipsisConfig :: "BlockProps \<Rightarrow> EllipsisConfig" where
  "ellipsisConfig props = snd (useMergedConfig mergeEllipsis (ellipsis props) ellipsisTemplate)"

subsection \<open>Decorations\<close>

text \<open>The inner \<^verbatim>\<open>wrap\<close>: the mutable \<^verbatim>\<open>currentContent\<close> is passed and returned.\<close>

definition wrap :: "bool option \<Rightarrow> string \<Rightarrow> node \<Rightarrow> node" where
  "wrap needed tag currentContent =
     (if \<not> truthy needed then currentContent else Element tag [currentContent])"

definition wrapperDecorations :: "BlockProps \<Rightarrow> node \<Rightarrow> node" where
  "wrapperDecorations props content =
     (let currentContent = content;
          currentContent = wrap (strong props) ''strong'' currentContent;
          currentContent = wrap (underline props) ''u'' currentContent;
          currentContent = wrap (delete props) ''del'' currentContent;
          currentContent = wrap (code props) ''code'' currentContent;
          currentContent = wrap (mark props) ''mark'' currentContent;
          currentContent = wrap (keyboard props) ''kbd'' currentContent;
          currentContent = wrap (italic props) ''i'' currentContent
      in currentContent)"

text \<open>
  Reading a decorated node from the outside in: the tags of the chain of single-child
  elements, outermost first, and the node at the core of the chain.
\<close>

fun tags_outside_in :: "node \<Rightarrow> string list" where
  "tags_outside_in (Element tag [child]) = tag # tags_outside_in child"
| "tags_outside_in _ = []"

fun core :: "node \<Rightarrow> node" where
  "core (Element tag [child]) = core child"
| "core n = n"

text \<open>The tags requested by the flags, listed in the order \<^verbatim>\<open>wrap\<close> is called.\<close>

definition requested_tags :: "BlockProps \<Rightarrow> string list" where
  "requested_tags props =
     map snd (filter (\<lambda>(needed, tag). truthy needed)
       [(strong props, ''strong''), (underline props, ''u''), (delete props, ''del''),
        (code props, ''code''), (mark props, ''mark''), (keyboard props, ''kbd''),
        (italic props, ''i'')])"

text \<open>Props with no feature and no decoration, to build concrete inputs from.\<close>

definition plainProps :: "node \<Rightarrow> BlockProps" where
  "plainProps c = \<lparr>children = c, editable = Absent, copyable = Absent, baseType = None,
     disabled = None, ellipsis = Absent, code = None, mark = None, underline = None,
     delete = None, strong = None, keyboard = None, italic = None\<rparr>"

subsection \<open>Stringification of children\<close>

text \<open>
  \<^verbatim>\<open>String(children)\<close>: a string is itself, an element is an object, an array joins
  its items with commas (null and undefined items give the empty string).
\<close>

fun joinWith :: "string \<Rightarrow> string list \<Rightarrow> string" where
  "joinWith sep [] = []"
| "joinWith sep [x] = x"
| "joinWith sep (x # y # ys) = x @ sep @ joinWith sep (y # ys)"

fun String' :: "node \<Rightarrow> string" where
  "String' (Text s) = s"
| "String' (Element tag cs) = ''[object Object]''"
| "String' (Fragment cs) = ''[object Object]''"
| "String' (Control c) = ''[object Object]''"
| "String' (Array xs) =
     joinWith '','' (map (\<lambda>x. if x = Null \<or> x = Undefined then [] else String' x) xs)"
| "String' Null = ''null''"
| "String' Undefined = ''undefined''"
| "String' (Boolean b) = (if b then ''true'' else ''false'')"

subsection \<open>Instance state, timers and the log of effects\<close>

text \<open>
  The hook state of one mounted instance, together with the part of the host it
  schedules into: a clock in milliseconds and the pending timeouts (handle, due
  time) of this instance. \<open>innerEditing\<close> is the inner value kept by
  \<^verbatim>\<open>useMergedState\<close>. \<open>copyConfigMemo\<close> is the copy configuration object kept by
  \<^verbatim>\<open>useMergedConfig\<close>, with the prop it was built from: the one object of the
  component that a handler writes into.
\<close>

record state =
  innerEditing :: bool
  copied :: bool
  copyIdRef :: "nat option"
  expanded :: bool
  isJsEllipsis :: bool
  isNativeEllipsis :: bool
  ellipsisWidth :: int
  mounted :: bool
  now :: nat
  nextTimerId :: nat
  timers :: "(nat \<times> nat) list"
  copyConfigMemo :: "(CopyConfig config_prop \<times> CopyConfig) option"

datatype arg = NoArg | StringArg string | BoolArg bool | EventArg

datatype effect = Invoke callback arg | ClipboardWrite string | TimeoutFired nat

text \<open>\<^verbatim>\<open>cb?.(a)\<close>: the call happens only when the callback is defined.\<close>

definition call :: "callback option \<Rightarrow> arg \<Rightarrow> effect list" where
  "call cb a = (case cb of None \<Rightarrow> [] | Some f \<Rightarrow> [Invoke f a])"

text \<open>
  \<^verbatim>\<open>useMergedState(false, { value })\<close> of rc-util: the value read is the supplied one when
  it is defined and the inner one otherwise; the inner value starts as the supplied
  value when there is one, else as the default; the setter writes the inner value.
\<close>

definition useMergedState :: "bool \<Rightarrow> bool option \<Rightarrow> bool" where
  "useMergedState innerValue v = (case v of Some b \<Rightarrow> b | None \<Rightarrow> innerValue)"

definition isEditing :: "BlockProps \<Rightarrow> state \<Rightarrow> bool" where
  "isEditing props s = useMergedState (innerEditing s) (editing (editConfig props))"

definition setEditing :: "bool \<Rightarrow> state \<Rightarrow> state" where
  "setEditing edit s = s\<lparr>innerEditing := edit\<rparr>"

definition init :: "BlockProps \<Rightarrow> state" where
  "init props = \<lparr>innerEditing = useMergedState False (editing (editConfig props)),
     copied = False, copyIdRef = None, expanded = False, isJsEllipsis = False,
     isNativeEllipsis = False, ellipsisWidth = 0, mounted = True, now = 0,
     nextTimerId = 0, timers = [],
     copyConfigMemo = Some (copyable props, copyConfig props)\<rparr>"

text \<open>\<^verbatim>\<open>const { triggerType = ['icon'] } = editConfig\<close>\<close>

definition triggerTypes :: "BlockProps \<Rightarrow> trigger list" where
  "triggerTypes props =
     (case triggerType (editConfig props) of None \<Rightarrow> [TriggerIcon] | Some ts \<Rightarrow> ts)"

subsection \<open>Edit handlers\<close>

definition triggerEdit :: "BlockProps \<Rightarrow> bool \<Rightarrow> state \<Rightarrow> state \<times> effect list" where
  "triggerEdit props edit s =
     (setEditing edit s, if edit then call (onStart (editConfig props)) NoArg else [])"

definition onEditClick :: "BlockProps \<Rightarrow> state \<Rightarrow> state \<times> effect list" where
  "onEditClick props s = triggerEdit props True s"

definition onEditChange :: "BlockProps \<Rightarrow> string \<Rightarrow> state \<Rightarrow> state \<times> effect list" where
  "onEditChange props v s =
     (let (s', es) = triggerEdit props False s
      in (s', call (onChange (editConfig props)) (StringArg v) @ es))"

definition onEditCancel :: "BlockProps \<Rightarrow> state \<Rightarrow> state \<times> effect list" where
  "onEditCancel props s =
     (let (s', es) = triggerEdit props False s
      in (s', call (onCancel (editConfig props)) NoArg @ es))"

subsection \<open>Copy handler and its timer\<close>

definition clearTimeout :: "nat option \<Rightarrow> state \<Rightarrow> state" where
  "clearTimeout h s =
     (case h of None \<Rightarrow> s
      | Some i \<Rightarrow> s\<lparr>timers := filter (\<lambda>(j, due). j \<noteq> i) (timers s)\<rparr>)"

definition setTimeout :: "nat \<Rightarrow> state \<Rightarrow> nat \<times> state" where
  "setTimeout delay s =
     (nextTimerId s,
      s\<lparr>nextTimerId := Suc (nextTimerId s),
        timers := timers s @ [(nextTimerId s, now s + delay)]\<rparr>)"

definition cleanCopyId :: "state \<Rightarrow> state" where
  "cleanCopyId s = clearTimeout (copyIdRef s) s"

text \<open>
  Modelled from the spec: \<^verbatim>\<open>useMergedConfig\<close> is not among the sources. The normalized
  configuration is the same for the same prop: the object the hook returned is kept
  across renders while the prop stays the same (the component lists the returned
  object among the dependencies of a memo), and it is built anew from the prop
  otherwise. Two renders pass the same prop when they pass equal values, which is
  exact for \<^verbatim>\<open>copyable={true}\<close>.
\<close>

definition currentCopyConfig :: "BlockProps \<Rightarrow> state \<Rightarrow> CopyConfig" where
  "currentCopyConfig props s =
     (case copyConfigMemo s of
        None \<Rightarrow> copyConfig props
      | Some (propConfig, obj) \<Rightarrow>
          if propConfig = copyable props then obj else copyConfig props)"

text \<open>The hook as called in a render: it leaves the object in effect in the memo.\<close>

definition useMergedCopyConfig :: "BlockProps \<Rightarrow> state \<Rightarrow> state" where
  "useMergedCopyConfig props s =
     s\<lparr>copyConfigMemo := Some (copyable props, currentCopyConfig props s)\<rparr>"

text \<open>
  \<^verbatim>\<open>if (copyConfig.text === undefined) copyConfig.text = String(children)\<close>: the write
  goes into the configuration object itself.
\<close>

definition fillCopyText :: "BlockProps \<Rightarrow> CopyConfig \<Rightarrow> CopyConfig" where
  "fillCopyText props c =
     (if copyText c = None then c\<lparr>copyText := Some (String' (children props))\<rparr> else c)"

text \<open>\<^verbatim>\<open>copyConfig.text || ''\<close>\<close>

definition textOrEmpty :: "CopyConfig \<Rightarrow> string" where
  "textOrEmpty c = (case copyText c of None \<Rightarrow> [] | Some t \<Rightarrow> if t = [] then [] else t)"

definition onCopyClick :: "BlockProps \<Rightarrow> state \<Rightarrow> state \<times> effect list" where
  "onCopyClick props s =
     (let c = fillCopyText props (currentCopyConfig props s);
          s0 = s\<lparr>copyConfigMemo := Some (copyable props, c)\<rparr>;
          s1 = s0\<lparr>copied := True\<rparr>;
          s2 = cleanCopyId s1;
          (h, s3) = setTimeout 3000 s2;
          s4 = s3\<lparr>copyIdRef := Some h\<rparr>
      in (s4, ClipboardWrite (textOrEmpty c) # call (onCopy c) NoArg))"

text \<open>
  The clock advances by \<open>dt\<close>: every timeout that is due runs its callback
  \<^verbatim>\<open>setCopied(false)\<close> (without effect on an unmounted instance) and is gone.
\<close>

definition elapse :: "nat \<Rightarrow> state \<Rightarrow> state \<times> effect list" where
  "elapse dt s =
     (let t = now s + dt;
          due = filter (\<lambda>(h, d). d \<le> t) (timers s)
      in (s\<lparr>now := t,
            timers := filter (\<lambda>(h, d). \<not> d \<le> t) (timers s),
            copied := (if due = [] \<or> \<not> mounted s then copied s else False)\<rparr>,
          map (\<lambda>(h, d). TimeoutFired h) due))"

text \<open>\<^verbatim>\<open>React.useEffect(() => cleanCopyId, [])\<close>: the cleanup runs when the instance unmounts.\<close>

definition unmount :: "state \<Rightarrow> state" where
  "unmount s = (cleanCopyId s)\<lparr>mounted := False\<rparr>"

subsection \<open>Ellipsis: values computed in a render\<close>

definition mergedEnableEllipsis :: "BlockProps \<Rightarrow> state \<Rightarrow> bool" where
  "mergedEnableEllipsis props s = (enableEllipsis props \<and> \<not> expanded s)"

text \<open>\<^verbatim>\<open>const { rows = 1 } = ellipsisConfig\<close>\<close>

definition rowCount :: "BlockProps \<Rightarrow> int" where
  "rowCount props = (case rows (ellipsisConfig props) of None \<Rightarrow> 1 | Some r \<Rightarrow> r)"

definition cssEllipsis :: "env \<Rightarrow> BlockProps \<Rightarrow> state \<Rightarrow> bool" where
  "cssEllipsis e props s =
     (if \<not> mergedEnableEllipsis props s \<or>
         suffix (ellipsisConfig props) \<noteq> None \<or>
         onEllipsis (ellipsisConfig props) \<noteq> None \<or>
         truthy (expandable (ellipsisConfig props)) \<or>
         enableEdit props \<or>
         enableCopy props
      then False
      else if rowCount props = 1 then isTextOverflowSupport e
      else isLineClampSupport e)"

definition isMergedEllipsis :: "env \<Rightarrow> BlockProps \<Rightarrow> state \<Rightarrow> bool" where
  "isMergedEllipsis e props s =
     (mergedEnableEllipsis props s \<and>
      (if cssEllipsis e props s then isNativeEllipsis s else isJsEllipsis s))"

definition cssTextOverflow :: "env \<Rightarrow> BlockProps \<Rightarrow> state \<Rightarrow> bool" where
  "cssTextOverflow e props s =
     (mergedEnableEllipsis props s \<and> rowCount props = 1 \<and> cssEllipsis e props s)"

definition cssLineClamp :: "env \<Rightarrow> BlockProps \<Rightarrow> state \<Rightarrow> bool" where
  "cssLineClamp e props s =
     (mergedEnableEllipsis props s \<and> rowCount props > 1 \<and> cssEllipsis e props s)"

text \<open>The \<^verbatim>\<open>enabledMeasure\<close> prop handed to the measuring \<^verbatim>\<open>Ellipsis\<close> helper.\<close>

definition enabledMeasure :: "env \<Rightarrow> BlockProps \<Rightarrow> state \<Rightarrow> bool" where
  "enabledMeasure e props s = (mergedEnableEllipsis props s \<and> \<not> cssEllipsis e props s)"

text \<open>The \<^verbatim>\<open>disabled\<close> prop of the \<^verbatim>\<open>ResizeObserver\<close>.\<close>

definition resizeDisabled :: "env \<Rightarrow> BlockProps \<Rightarrow> state \<Rightarrow> bool" where
  "resizeDisabled e props s = (\<not> mergedEnableEllipsis props s \<or> cssEllipsis e props s)"

subsection \<open>Ellipsis handlers\<close>

definition onExpandClick :: "BlockProps \<Rightarrow> state \<Rightarrow> state \<times> effect list" where
  "onExpandClick props s =
     (s\<lparr>expanded := True\<rparr>, call (onExpand (ellipsisConfig props)) EventArg)"

definition onResize :: "int \<Rightarrow> state \<Rightarrow> state" where
  "onResize offsetWidth s = s\<lparr>ellipsisWidth := offsetWidth\<rparr>"

definition onJsEllipsis :: "BlockProps \<Rightarrow> bool \<Rightarrow> state \<Rightarrow> state \<times> effect list" where
  "onJsEllipsis props jsEllipsis s =
     (s\<lparr>isJsEllipsis := jsEllipsis\<rparr>,
      if isJsEllipsis s \<noteq> jsEllipsis
      then call (onEllipsis (ellipsisConfig props)) (BoolArg jsEllipsis) else [])"

text \<open>
  The effect that reads the rendered element: \<open>offsetWidth\<close> and \<open>scrollWidth\<close> are
  those of \<^verbatim>\<open>typographyRef.current\<close>, which exists when the text is displayed.
\<close>

definition nativeEllipsisEffect :: "env \<Rightarrow> BlockProps \<Rightarrow> int \<Rightarrow> int \<Rightarrow> state \<Rightarrow> state" where
  "nativeEllipsisEffect e props offsetWidth scrollWidth s =
     (if enableEllipsis props \<and> cssEllipsis e props s
      then (let currentEllipsis = offsetWidth < scrollWidth
            in if isNativeEllipsis s \<noteq> currentEllipsis
               then s\<lparr>isNativeEllipsis := currentEllipsis\<rparr> else s)
      else s)"

subsection \<open>What a render returns\<close>

definition ELLIPSIS_STR :: string where
  "ELLIPSIS_STR = ''...''"

definition renderExpand :: "BlockProps \<Rightarrow> node" where
  "renderExpand props =
     (if \<not> truthy (expandable (ellipsisConfig props)) then Null else Control ExpandControl)"

definition renderEdit :: "BlockProps \<Rightarrow> node" where
  "renderEdit props =
     (if \<not> enableEdit props then Undefined
      else if TriggerIcon \<in> set (triggerTypes props) then Control EditControl else Null)"

definition renderCopy :: "BlockProps \<Rightarrow> state \<Rightarrow> node" where
  "renderCopy props s =
     (if \<not> enableCopy props then Undefined else Control (CopyControl (copied s)))"

definition renderOperations :: "BlockProps \<Rightarrow> state \<Rightarrow> bool \<Rightarrow> node" where
  "renderOperations props s renderExpanded =
     Array [if renderExpanded then renderExpand props else Boolean False,
            renderEdit props, renderCopy props s]"

definition renderSuffix :: "BlockProps \<Rightarrow> state \<Rightarrow> bool \<Rightarrow> node" where
  "renderSuffix props s needEllipsis =
     Array [if needEllipsis
            then Array [Text ELLIPSIS_STR,
                        case suffix (ellipsisConfig props) of
                          None \<Rightarrow> Undefined | Some x \<Rightarrow> Text x]
            else Boolean False,
            renderOperations props s needEllipsis]"

text \<open>
  The render prop given to \<^verbatim>\<open>Ellipsis\<close>: the helper supplies the (possibly cut) text
  node and whether it cut it.
\<close>

definition renderContent :: "BlockProps \<Rightarrow> state \<Rightarrow> node \<Rightarrow> bool \<Rightarrow> node" where
  "renderContent props s n needEllipsis =
     wrapperDecorations props (Fragment [n, renderSuffix props s needEllipsis])"

fun typeClass :: "BaseType \<Rightarrow> string" where
  "typeClass secondary = ''secondary''"
| "typeClass success = ''success''"
| "typeClass warning = ''warning''"
| "typeClass danger = ''danger''"

text \<open>
  The \<^verbatim>\<open>Typography\<close> element of the display branch: class names without the prefix,
  the line clamp style, whether \<^verbatim>\<open>onClick\<close> is \<^verbatim>\<open>onEditClick\<close> (otherwise null),
  and the props of the observer, the tooltip and the measuring helper around it.
\<close>

record typography =
  classNames :: "string list"
  WebkitLineClamp :: "int option"
  onClickStartsEdit :: bool
  observerDisabled :: bool
  tooltipEnabledEllipsis :: bool
  tooltipIsEllipsis :: bool
  measureEnabled :: bool
  measureRows :: int
  measureWidth :: int

datatype view = EditableView string | TypographyView typography

definition render :: "env \<Rightarrow> BlockProps \<Rightarrow> state \<Rightarrow> view" where
  "render e props s =
     (if isEditing props s
      then EditableView (case children props of Text c \<Rightarrow> c | _ \<Rightarrow> [])
      else TypographyView
        \<lparr>classNames =
           (case baseType props of None \<Rightarrow> [] | Some t \<Rightarrow> [typeClass t]) @
           (if truthy (disabled props) then [''disabled''] else []) @
           (if enableEllipsis props then [''ellipsis''] else []) @
           (if mergedEnableEllipsis props s \<and> rowCount props = 1
            then [''single-line''] else []) @
           (if cssTextOverflow e props s then [''ellipsis-single-line''] else []) @
           (if cssLineClamp e props s then [''ellipsis-multiple-line''] else []),
         WebkitLineClamp = (if cssLineClamp e props s then Some (rowCount props) else None),
         onClickStartsEdit = (TriggerText \<in> set (triggerTypes props)),
         observerDisabled = resizeDisabled e props s,
         tooltipEnabledEllipsis = mergedEnableEllipsis props s,
         tooltipIsEllipsis = isMergedEllipsis e props s,
         measureEnabled = enabledMeasure e props s,
         measureRows = rowCount props,
         measureWidth = ellipsisWidth s\<rparr>)"

text \<open>Whether a control occurs somewhere in a node.\<close>

fun occurs :: "control \<Rightarrow> node \<Rightarrow> bool" where
  "occurs c (Control d) = (c = d)"
| "occurs c (Element tag ns) = (\<exists>n \<in> set ns. occurs c n)"
| "occurs c (Fragment ns) = (\<exists>n \<in> set ns. occurs c n)"
| "occurs c (Array ns) = (\<exists>n \<in> set ns. occurs c n)"
| "occurs c (Text x) = False"
| "occurs c Null = False"
| "occurs c Undefined = False"
| "occurs c (Boolean b) = False"

text \<open>
  Whether the rendered output holds the edit icon control, when the measuring helper
  hands the node \<open>n\<close> and the flag \<open>needEllipsis\<close> to the render prop.
\<close>

definition showsEditIcon :: "env \<Rightarrow> BlockProps \<Rightarrow> state \<Rightarrow> node \<Rightarrow> bool \<Rightarrow> bool" where
  "showsEditIcon e props s n needEllipsis =
     (case render e props s of
        EditableView v \<Rightarrow> False
      | TypographyView t \<Rightarrow> occurs EditControl (renderContent props s n needEllipsis))"

subsection \<open>Events of one instance\<close>

text \<open>
  What can happen to a mounted instance between renders: the user activates a control
  that the last render shows, the editor saves or cancels, the observer or the
  measuring helper reports, the layout effect reads the element, time passes, the
  instance unmounts. Each event is handled by the closures of the render it follows,
  so it comes with the props of that render.
\<close>

datatype event =
    ClickEditIcon
  | ClickText
  | Save string
  | Cancel
  | ClickCopy
  | ClickExpand
  | Resized int
  | Measured bool
  | LaidOut int int
  | Elapsed nat
  | Unmounted

definition step :: "env \<Rightarrow> BlockProps \<Rightarrow> event \<Rightarrow> state \<Rightarrow> state \<times> effect list" where
  "step e props ev s =
     (if \<not> mounted s then (case ev of Elapsed dt \<Rightarrow> elapse dt s | _ \<Rightarrow> (s, []))
      else case ev of
        Elapsed dt \<Rightarrow> elapse dt s
      | Unmounted \<Rightarrow> (unmount s, [])
      | _ \<Rightarrow>
        (case render e props s of
           EditableView v \<Rightarrow>
             (case ev of
                Save x \<Rightarrow> onEditChange props x s
              | Cancel \<Rightarrow> onEditCancel props s
              | _ \<Rightarrow> (s, []))
         | TypographyView t \<Rightarrow>
             (case ev of
                ClickEditIcon \<Rightarrow>
                  if renderEdit props = Control EditControl then onEditClick props s else (s, [])
              | ClickText \<Rightarrow> if onClickStartsEdit t then onEditClick props s else (s, [])
              | ClickCopy \<Rightarrow> if enableCopy props then onCopyClick props s else (s, [])
              | ClickExpand \<Rightarrow>
                  if renderExpand props = Control ExpandControl
                  then onExpandClick props s else (s, [])
              | Resized w \<Rightarrow> if observerDisabled t then (s, []) else (onResize w s, [])
              | Measured b \<Rightarrow> onJsEllipsis props b s
              | LaidOut ow sw \<Rightarrow> (nativeEllipsisEffect e props ow sw s, [])
              | _ \<Rightarrow> (s, []))))"

text \<open>
  The render that precedes an event: of the hooks only the configuration memo keeps
  something from one render to the next.
\<close>

definition rerender :: "BlockProps \<Rightarrow> state \<Rightarrow> state" where
  "rerender props s = (if mounted s then useMergedCopyConfig props s else s)"

fun run :: "env \<Rightarrow> (BlockProps \<times> event) list \<Rightarrow> state \<Rightarrow> state \<times> effect list" where
  "run e [] s = (s, [])"
| "run e ((props, ev) # rest) s =
     (let (s1, es1) = step e props ev (rerender props s);
          (s2, es2) = run e rest s1
      in (s2, es1 @ es2))"

subsection \<open>The pending reset of the copy acknowledgment\<close>

text \<open>
  At most one timeout of the instance is pending, and it is the one whose handle
  \<^verbatim>\<open>copyIdRef\<close> holds.
\<close>

definition timerInv :: "state \<Rightarrow> bool" where
  "timerInv s =
     (case timers s of [] \<Rightarrow> True | [(h, d)] \<Rightarrow> copyIdRef s = Some h | _ \<Rightarrow> False)"

subsection \<open>Concrete inputs\<close>

text \<open>
  An environment supporting both styles, and props of small instances on which the
  properties below are evaluated.
\<close>

definition bothSupported :: env where
  "bothSupported = \<lparr>isLineClampSupport = True, isTextOverflowSupport = True\<rparr>"

definition emptyEllipsisConfig :: EllipsisConfig where
  "emptyEllipsisConfig = \<lparr>rows = None, expandable = None, suffix = None, symbol = None,
     onExpand = None, onEllipsis = None, tooltip = None\<rparr>"

definition zeroRowsProps :: BlockProps where
  "zeroRowsProps =
     (plainProps (Text ''hello''))\<lparr>ellipsis := Config (emptyEllipsisConfig\<lparr>rows := Some 0\<rparr>)\<rparr>"

definition editableProps :: BlockProps where
  "editableProps = (plainProps (Text ''hello''))\<lparr>editable := Flag True\<rparr>"

definition expandableProps :: BlockProps where
  "expandableProps =
     (plainProps (Text ''hello''))\<lparr>ellipsis := Config (emptyEllipsisConfig
        \<lparr>rows := Some 2, expandable := Some True, onExpand := Some (Callback 1)\<rparr>)\<rparr>"

definition controlledProps :: BlockProps where
  "controlledProps =
     (plainProps (Text ''hello''))\<lparr>editable := Config (emptyEditConfig
        \<lparr>editing := Some False, onStart := Some (Callback 2)\<rparr>)\<rparr>"

definition copyableProps :: BlockProps where
  "copyableProps = (plainProps (Text ''hello''))\<lparr>ellipsis := Flag True, copyable := Flag True\<rparr>"

definition copyHelloProps :: BlockProps where
  "copyHelloProps = (plainProps (Text ''hello''))\<lparr>copyable := Flag True\<rparr>"

definition copyWorldProps :: BlockProps where
  "copyWorldProps = (plainProps (Text ''world''))\<lparr>copyable := Flag True\<rparr>"

definition textTriggerProps :: BlockProps where
  "textTriggerProps =
     (plainProps (Text ''hello''))\<lparr>editable := Config (emptyEditConfig
        \<lparr>triggerType := Some [TriggerText]\<rparr>)\<rparr>"

definition ellipsisProps :: BlockProps where
  "ellipsisProps = (plainProps (Text ''hello''))\<lparr>ellipsis := Flag True\<rparr>"

definition measuredProps :: BlockProps where
  "measuredProps =
     (plainProps (Text ''hello''))\<lparr>ellipsis := Config (emptyEllipsisConfig
        \<lparr>rows := Some 2, onEllipsis := Some (Callback 4)\<rparr>)\<rparr>"

section \<open>Properties\<close>

lemmas config_defs =
  plainProps_def emptyEllipsisConfig_def emptyEditConfig_def emptyCopyConfig_def
  ellipsisTemplate_def mergeEllipsis_def useMergedConfig_def enableEdit_def editConfig_def
  enableCopy_def copyConfig_def enableEllipsis_def ellipsisConfig_def triggerTypes_def
  rowCount_def bothSupported_def

lemmas render_defs =
  init_def isEditing_def useMergedState_def mergedEnableEllipsis_def cssEllipsis_def
  cssTextOverflow_def cssLineClamp_def enabledMeasure_def resizeDisabled_def
  isMergedEllipsis_def render_def renderEdit_def renderExpand_def

subsection \<open>Decoration order\<close>

lemma wrap_tags:
  "tags_outside_in (wrap needed tag n) =
     (if truthy needed then tag # tags_outside_in n else tags_outside_in n)"
  by (simp add: wrap_def)

lemma wrap_core: "core (wrap needed tag n) = core n"
  by (simp add: wrap_def)

text \<open>
  C1 (as amended). For every set of decoration flags the wrappers are applied in the
  fixed order strong, underline, delete, code, mark, keyboard, italic, each one
  enclosing the result so far: the result is the content wrapped successively in the
  requested tags in that order, so read from the outside in the tags come in the
  reverse order (italic outermost, strong innermost) around the unchanged content.
\<close>

theorem wrapperDecorations_order:
  "wrapperDecorations props content =
     foldl (\<lambda>n tag. Element tag [n]) content (requested_tags props) \<and>
   tags_outside_in (wrapperDecorations props content) =
     rev (requested_tags props) @ tags_outside_in content \<and>
   core (wrapperDecorations props content) = core content"
proof (intro conjI)
  show "wrapperDecorations props content =
     foldl (\<lambda>n tag. Element tag [n]) content (requested_tags props)"
    by (simp add: wrapperDecorations_def requested_tags_def wrap_def)
  show "tags_outside_in (wrapperDecorations props content) =
     rev (requested_tags props) @ tags_outside_in content"
    by (simp add: wrapperDecorations_def requested_tags_def wrap_tags)
  show "core (wrapperDecorations props content) = core content"
    by (simp add: wrapperDecorations_def wrap_core)
qed

text \<open>
  C1 as stated fails: with strong and italic set, the result is the \<^verbatim>\<open>i\<close> element
  around the \<^verbatim>\<open>strong\<close> element, not the \<^verbatim>\<open>strong\<close> element around the \<^verbatim>\<open>i\<close> element.
\<close>

theorem strong_italic_nesting_counterexample:
  "wrapperDecorations
     ((plainProps (Text ''a''))\<lparr>strong := Some True, italic := Some True\<rparr>) (Text ''a'') =
     Element ''i'' [Element ''strong'' [Text ''a'']] \<and>
   wrapperDecorations
     ((plainProps (Text ''a''))\<lparr>strong := Some True, italic := Some True\<rparr>) (Text ''a'') \<noteq>
     Element ''strong'' [Element ''i'' [Text ''a'']]"
  by (simp add: wrapperDecorations_def wrap_def plainProps_def)

subsection \<open>Traces and the pending timeout\<close>

lemma timerInv_init: "timerInv (init props)"
  by (simp add: timerInv_def init_def)

lemma timerInv_cong:
  "timers s' = timers s \<Longrightarrow> copyIdRef s' = copyIdRef s \<Longrightarrow> timerInv s' = timerInv s"
  by (simp add: timerInv_def split: list.splits)

lemma cleanCopyId_timers: "timerInv s \<Longrightarrow> timers (cleanCopyId s) = []"
  by (auto simp: timerInv_def cleanCopyId_def clearTimeout_def split: list.splits option.splits)

lemma cleanCopyId_frame:
  "copied (cleanCopyId s) = copied s" "now (cleanCopyId s) = now s"
  "nextTimerId (cleanCopyId s) = nextTimerId s" "mounted (cleanCopyId s) = mounted s"
  "expanded (cleanCopyId s) = expanded s" "innerEditing (cleanCopyId s) = innerEditing s"
  by (simp_all add: cleanCopyId_def clearTimeout_def split: option.splits)

lemma onCopyClick_fields:
  assumes "timerInv s"
  shows "copied (fst (onCopyClick props s))"
    and "timers (fst (onCopyClick props s)) = [(nextTimerId s, now s + 3000)]"
    and "copyIdRef (fst (onCopyClick props s)) = Some (nextTimerId s)"
    and "nextTimerId (fst (onCopyClick props s)) = Suc (nextTimerId s)"
    and "now (fst (onCopyClick props s)) = now s"
    and "mounted (fst (onCopyClick props s)) = mounted s"
    and "expanded (fst (onCopyClick props s)) = expanded s"
    and "innerEditing (fst (onCopyClick props s)) = innerEditing s"
proof -
  have "timerInv (s\<lparr>copyConfigMemo := m, copied := True\<rparr>)" for m
    using assms timerInv_cong[of "s\<lparr>copyConfigMemo := m, copied := True\<rparr>" s] by simp
  then have t: "timers (cleanCopyId (s\<lparr>copyConfigMemo := m, copied := True\<rparr>)) = []" for m
    by (rule cleanCopyId_timers)
  show "copied (fst (onCopyClick props s))"
    and "timers (fst (onCopyClick props s)) = [(nextTimerId s, now s + 3000)]"
    and "copyIdRef (fst (onCopyClick props s)) = Some (nextTimerId s)"
    and "nextTimerId (fst (onCopyClick props s)) = Suc (nextTimerId s)"
    and "now (fst (onCopyClick props s)) = now s"
    and "mounted (fst (onCopyClick props s)) = mounted s"
    and "expanded (fst (onCopyClick props s)) = expanded s"
    and "innerEditing (fst (onCopyClick props s)) = innerEditing s"
    by (simp_all add: onCopyClick_def setTimeout_def Let_def t cleanCopyId_frame)
qed

lemma onCopyClick_timerInv: "timerInv s \<Longrightarrow> timerInv (fst (onCopyClick props s))"
  by (simp add: timerInv_def[of "fst (onCopyClick props s)"] onCopyClick_fields)

lemma elapse_timerInv: "timerInv s \<Longrightarrow> timerInv (fst (elapse dt s))"
  by (auto simp: timerInv_def elapse_def Let_def split: list.splits)

lemma unmount_timers: "timerInv s \<Longrightarrow> timers (unmount s) = []"
  by (simp add: unmount_def cleanCopyId_timers)

lemma unmount_timerInv: "timerInv s \<Longrightarrow> timerInv (unmount s)"
  by (simp add: timerInv_def[of "unmount s"] unmount_timers)

lemma timers_frame:
  "timers (fst (onEditClick p s)) = timers s" "copyIdRef (fst (onEditClick p s)) = copyIdRef s"
  "timers (fst (onEditChange p x s)) = timers s" "copyIdRef (fst (onEditChange p x s)) = copyIdRef s"
  "timers (fst (onEditCancel p s)) = timers s" "copyIdRef (fst (onEditCancel p s)) = copyIdRef s"
  "timers (fst (onExpandClick p s)) = timers s" "copyIdRef (fst (onExpandClick p s)) = copyIdRef s"
  "timers (onResize w s) = timers s" "copyIdRef (onResize w s) = copyIdRef s"
  "timers (fst (onJsEllipsis p b s)) = timers s" "copyIdRef (fst (onJsEllipsis p b s)) = copyIdRef s"
  "timers (nativeEllipsisEffect e p ow sw s) = timers s"
  "copyIdRef (nativeEllipsisEffect e p ow sw s) = copyIdRef s"
  by (simp_all add: onEditClick_def onEditChange_def onEditCancel_def triggerEdit_def setEditing_def
      onExpandClick_def onResize_def onJsEllipsis_def nativeEllipsisEffect_def Let_def)

lemma step_timerInv:
  assumes "timerInv s"
  shows "timerInv (fst (step e props ev s))"
proof (cases ev)
  case (Elapsed dt)
  then show ?thesis using assms by (simp add: step_def elapse_timerInv)
next
  case Unmounted
  then show ?thesis using assms by (simp add: step_def unmount_timerInv)
next
  case ClickCopy
  then show ?thesis using assms
    by (simp add: step_def onCopyClick_timerInv split: view.splits)
qed (use assms in \<open>simp_all add: step_def timerInv_cong[OF timers_frame(1) timers_frame(2)]
      timerInv_cong[OF timers_frame(3) timers_frame(4)]
      timerInv_cong[OF timers_frame(5) timers_frame(6)]
      timerInv_cong[OF timers_frame(7) timers_frame(8)]
      timerInv_cong[OF timers_frame(9) timers_frame(10)]
      timerInv_cong[OF timers_frame(11) timers_frame(12)]
      timerInv_cong[OF timers_frame(13) timers_frame(14)] split: view.splits\<close>)

lemma rerender_frame:
  "timers (rerender p s) = timers s" "copyIdRef (rerender p s) = copyIdRef s"
  "mounted (rerender p s) = mounted s" "expanded (rerender p s) = expanded s"
  "innerEditing (rerender p s) = innerEditing s"
  by (simp_all add: rerender_def useMergedCopyConfig_def)

lemma rerender_timerInv: "timerInv (rerender p s) = timerInv s"
  by (rule timerInv_cong) (simp_all add: rerender_frame)

lemma run_Cons_fst:
  "fst (run e ((props, ev) # tr) s) =
     fst (run e tr (fst (step e props ev (rerender props s))))"
  by (simp add: case_prod_beta)

lemma run_Cons_snd:
  "snd (run e ((props, ev) # tr) s) =
     snd (step e props ev (rerender props s)) @
     snd (run e tr (fst (step e props ev (rerender props s))))"
  by (simp add: case_prod_beta)

lemma run_timerInv: "timerInv s \<Longrightarrow> timerInv (fst (run e tr s))"
proof (induction tr arbitrary: s)
  case Nil
  then show ?case by simp
next
  case (Cons a tr)
  obtain props ev where a: "a = (props, ev)" by (cases a)
  have "timerInv (rerender props s)" using Cons.prems by (simp add: rerender_timerInv)
  then have "timerInv (fst (step e props ev (rerender props s)))" by (rule step_timerInv)
  then have "timerInv (fst (run e tr (fst (step e props ev (rerender props s)))))"
    by (rule Cons.IH)
  then show ?case by (simp only: a run_Cons_fst)
qed

lemma elapse_quiet:
  assumes "timers s = []"
  shows "snd (elapse dt s) = []" and "timers (fst (elapse dt s)) = []"
    and "mounted (fst (elapse dt s)) = mounted s"
  using assms by (simp_all add: elapse_def Let_def)

lemma step_unmounted_quiet:
  assumes "\<not> mounted s" and "timers s = []"
  shows "snd (step e props ev s) = []" and "timers (fst (step e props ev s)) = []"
    and "\<not> mounted (fst (step e props ev s))"
  using assms by (cases ev; simp add: step_def elapse_quiet)+

lemma run_unmounted_quiet:
  "\<not> mounted s \<Longrightarrow> timers s = [] \<Longrightarrow> snd (run e tr s) = []"
proof (induction tr arbitrary: s)
  case Nil
  then show ?case by simp
next
  case (Cons a tr)
  obtain props ev where a: "a = (props, ev)" by (cases a)
  have q: "\<not> mounted (rerender props s)" "timers (rerender props s) = []"
    using Cons.prems by (simp_all add: rerender_frame)
  have "snd (run e tr (fst (step e props ev (rerender props s)))) = []"
    using q by (intro Cons.IH step_unmounted_quiet)
  then show ?case
    using step_unmounted_quiet(1)[OF q, of e props ev]
    by (simp add: a run_Cons_snd del: run.simps)
qed

lemma isEditing_frame:
  "isEditing p (fst (onCopyClick p' s)) = isEditing p s"
  "isEditing p (fst (elapse dt s)) = isEditing p s"
  by (simp_all add: isEditing_def onCopyClick_fields elapse_def Let_def onCopyClick_def
      setTimeout_def cleanCopyId_frame)

lemma step_ClickCopy:
  "mounted s \<Longrightarrow> \<not> isEditing props s \<Longrightarrow> enableCopy props \<Longrightarrow>
     step e props ClickCopy s = onCopyClick props s"
  by (simp add: step_def render_def)

subsection \<open>The expanded flag\<close>

lemma expanded_frame:
  "expanded (fst (onEditClick p s)) = expanded s"
  "expanded (fst (onEditChange p x s)) = expanded s"
  "expanded (fst (onEditCancel p s)) = expanded s"
  "expanded (onResize w s) = expanded s"
  "expanded (fst (onJsEllipsis p b s)) = expanded s"
  "expanded (nativeEllipsisEffect e p ow sw s) = expanded s"
  "expanded (fst (elapse dt s)) = expanded s"
  "expanded (unmount s) = expanded s"
  by (simp_all add: onEditClick_def onEditChange_def onEditCancel_def triggerEdit_def
      setEditing_def onResize_def onJsEllipsis_def nativeEllipsisEffect_def elapse_def
      unmount_def cleanCopyId_frame Let_def)

lemma expanded_onCopyClick: "expanded (fst (onCopyClick p s)) = expanded s"
  by (simp add: onCopyClick_def setTimeout_def cleanCopyId_frame Let_def)

lemma step_expanded_change:
  assumes "expanded (fst (step e props ev s)) \<noteq> expanded s"
  shows "ev = ClickExpand \<and> expanded (fst (step e props ev s)) \<and>
         snd (step e props ev s) = call (onExpand (ellipsisConfig props)) EventArg"
  using assms
  by (cases ev)
     (auto simp: step_def expanded_frame expanded_onCopyClick onExpandClick_def
           split: view.splits if_splits)

lemma step_expanded_mono: "expanded s \<Longrightarrow> expanded (fst (step e props ev s))"
  using step_expanded_change[of e props ev s] by auto

lemma run_expanded_mono: "expanded s \<Longrightarrow> expanded (fst (run e tr s))"
proof (induction tr arbitrary: s)
  case Nil
  then show ?case by simp
next
  case (Cons a tr)
  obtain props ev where a: "a = (props, ev)" by (cases a)
  have "expanded (rerender props s)" using Cons.prems by (simp add: rerender_frame)
  then have "expanded (fst (step e props ev (rerender props s)))" by (rule step_expanded_mono)
  then have "expanded (fst (run e tr (fst (step e props ev (rerender props s)))))"
    by (rule Cons.IH)
  then show ?case by (simp only: a run_Cons_fst)
qed

text \<open>
  C2. The expanded flag is one-way. An event changes it only when it is the activation
  of the expand control, which sets it to true and invokes \<^verbatim>\<open>onExpand\<close> (when one is
  configured); activating the rendered expand control does set it. Once it is true it
  stays true along every later sequence of events, whatever the props of the later
  renders and whatever widths are reported, and ellipsis is disabled in every such
  render: no native truncation, no measurement, no truncation reported.
\<close>

theorem expanded_one_way:
  "(expanded (fst (step e props ev s)) \<noteq> expanded s \<longrightarrow>
      ev = ClickExpand \<and> expanded (fst (step e props ev s)) \<and>
      snd (step e props ev s) = call (onExpand (ellipsisConfig props)) EventArg) \<and>
   (mounted s \<and> \<not> isEditing props s \<and> truthy (expandable (ellipsisConfig props)) \<longrightarrow>
      expanded (fst (step e props ClickExpand s)) \<and>
      snd (step e props ClickExpand s) = call (onExpand (ellipsisConfig props)) EventArg) \<and>
   (expanded s \<longrightarrow>
      expanded (fst (run e tr s)) \<and>
      \<not> mergedEnableEllipsis props' (fst (run e tr s)) \<and>
      \<not> cssEllipsis e props' (fst (run e tr s)) \<and>
      \<not> enabledMeasure e props' (fst (run e tr s)) \<and>
      \<not> isMergedEllipsis e props' (fst (run e tr s)))"
proof -
  have change: "expanded (fst (step e props ev s)) \<noteq> expanded s \<longrightarrow>
      ev = ClickExpand \<and> expanded (fst (step e props ev s)) \<and>
      snd (step e props ev s) = call (onExpand (ellipsisConfig props)) EventArg"
    using step_expanded_change[of e props ev s] by blast
  have click: "mounted s \<and> \<not> isEditing props s \<and> truthy (expandable (ellipsisConfig props)) \<longrightarrow>
      expanded (fst (step e props ClickExpand s)) \<and>
      snd (step e props ClickExpand s) = call (onExpand (ellipsisConfig props)) EventArg"
    by (simp add: step_def render_def renderExpand_def onExpandClick_def)
  have stays: "expanded s \<longrightarrow>
      expanded (fst (run e tr s)) \<and>
      \<not> mergedEnableEllipsis props' (fst (run e tr s)) \<and>
      \<not> cssEllipsis e props' (fst (run e tr s)) \<and>
      \<not> enabledMeasure e props' (fst (run e tr s)) \<and>
      \<not> isMergedEllipsis e props' (fst (run e tr s))"
  proof
    assume "expanded s"
    then have x: "expanded (fst (run e tr s))" by (rule run_expanded_mono)
    then have m: "\<not> mergedEnableEllipsis props' (fst (run e tr s))"
      by (simp add: mergedEnableEllipsis_def)
    from x m show "expanded (fst (run e tr s)) \<and>
      \<not> mergedEnableEllipsis props' (fst (run e tr s)) \<and>
      \<not> cssEllipsis e props' (fst (run e tr s)) \<and>
      \<not> enabledMeasure e props' (fst (run e tr s)) \<and>
      \<not> isMergedEllipsis e props' (fst (run e tr s))"
      by (simp add: cssEllipsis_def enabledMeasure_def isMergedEllipsis_def)
  qed
  from change click stays show ?thesis by blast
qed

text \<open>
  The instance with \<^verbatim>\<open>ellipsis={{ rows: 2, expandable: true, onExpand }}\<close>: the expand
  control is activated, then a resize and a measurement report follow.
\<close>

theorem expanded_one_way_witness:
  "\<not> expanded (init expandableProps) \<and>
   expanded (fst (step bothSupported expandableProps ClickExpand (init expandableProps))) \<and>
   snd (step bothSupported expandableProps ClickExpand (init expandableProps)) =
     [Invoke (Callback 1) EventArg] \<and>
   expanded (fst (run bothSupported
      [(expandableProps, Resized 300), (expandableProps, Measured True)]
      (fst (step bothSupported expandableProps ClickExpand (init expandableProps))))) \<and>
   \<not> mergedEnableEllipsis expandableProps (fst (run bothSupported
      [(expandableProps, Resized 300), (expandableProps, Measured True)]
      (fst (step bothSupported expandableProps ClickExpand (init expandableProps)))))"
proof -
  have h: "mounted (init expandableProps) \<and> \<not> isEditing expandableProps (init expandableProps) \<and>
      truthy (expandable (ellipsisConfig expandableProps))"
    by (simp add: expandableProps_def config_defs render_defs)
  have n: "\<not> expanded (init expandableProps)" by (simp add: init_def)
  have cb: "call (onExpand (ellipsisConfig expandableProps)) EventArg =
      [Invoke (Callback 1) EventArg]"
    by (simp add: expandableProps_def config_defs call_def)
  note first = expanded_one_way[where e = bothSupported and props = expandableProps
      and ev = ClickExpand and s = "init expandableProps" and tr = "[]"
      and props' = expandableProps]
  from first h have x: "expanded (fst (step bothSupported expandableProps ClickExpand
      (init expandableProps)))"
    and y: "snd (step bothSupported expandableProps ClickExpand (init expandableProps)) =
      call (onExpand (ellipsisConfig expandableProps)) EventArg"
    by blast+
  note later = expanded_one_way[where e = bothSupported and props = expandableProps
      and ev = ClickExpand
      and s = "fst (step bothSupported expandableProps ClickExpand (init expandableProps))"
      and tr = "[(expandableProps, Resized 300), (expandableProps, Measured True)]"
      and props' = expandableProps]
  from later x have z: "expanded (fst (run bothSupported
      [(expandableProps, Resized 300), (expandableProps, Measured True)]
      (fst (step bothSupported expandableProps ClickExpand (init expandableProps))))) \<and>
    \<not> mergedEnableEllipsis expandableProps (fst (run bothSupported
      [(expandableProps, Resized 300), (expandableProps, Measured True)]
      (fst (step bothSupported expandableProps ClickExpand (init expandableProps)))))"
    by blast
  from n x y z show ?thesis by (simp only: cb simp_thms)
qed

subsection \<open>Choice between native and measured truncation\<close>

lemma typeClass_neq:
  "typeClass t \<noteq> ''single-line''" "typeClass t \<noteq> ''ellipsis-single-line''"
  "typeClass t \<noteq> ''ellipsis-multiple-line''"
  "''single-line'' \<noteq> typeClass t" "''ellipsis-single-line'' \<noteq> typeClass t"
  "''ellipsis-multiple-line'' \<noteq> typeClass t"
  by (cases t; simp)+

lemma render_classes:
  assumes "render e props s = TypographyView t"
  shows "''single-line'' \<in> set (classNames t) \<longleftrightarrow>
           mergedEnableEllipsis props s \<and> rowCount props = 1"
    and "''ellipsis-single-line'' \<in> set (classNames t) \<longleftrightarrow> cssTextOverflow e props s"
    and "''ellipsis-multiple-line'' \<in> set (classNames t) \<longleftrightarrow> cssLineClamp e props s"
    and "WebkitLineClamp t = (if cssLineClamp e props s then Some (rowCount props) else None)"
    and "measureEnabled t = enabledMeasure e props s"
    and "observerDisabled t = resizeDisabled e props s"
    and "measureRows t = rowCount props"
    and "measureWidth t = ellipsisWidth s"
    and "onClickStartsEdit t \<longleftrightarrow> TriggerText \<in> set (triggerTypes props)"
proof -
  have t: "t = \<lparr>classNames =
           (case baseType props of None \<Rightarrow> [] | Some t \<Rightarrow> [typeClass t]) @
           (if truthy (disabled props) then [''disabled''] else []) @
           (if enableEllipsis props then [''ellipsis''] else []) @
           (if mergedEnableEllipsis props s \<and> rowCount props = 1
            then [''single-line''] else []) @
           (if cssTextOverflow e props s then [''ellipsis-single-line''] else []) @
           (if cssLineClamp e props s then [''ellipsis-multiple-line''] else []),
         WebkitLineClamp = (if cssLineClamp e props s then Some (rowCount props) else None),
         onClickStartsEdit = (TriggerText \<in> set (triggerTypes props)),
         observerDisabled = resizeDisabled e props s,
         tooltipEnabledEllipsis = mergedEnableEllipsis props s,
         tooltipIsEllipsis = isMergedEllipsis e props s,
         measureEnabled = enabledMeasure e props s,
         measureRows = rowCount props,
         measureWidth = ellipsisWidth s\<rparr>"
  proof (cases "isEditing props s")
    case True
    then show ?thesis using assms by (simp add: render_def)
  next
    case False
    then show ?thesis using assms[symmetric] by (simp add: render_def)
  qed
  show "''single-line'' \<in> set (classNames t) \<longleftrightarrow>
           mergedEnableEllipsis props s \<and> rowCount props = 1"
    by (auto simp: t typeClass_neq split: option.splits)
  show "''ellipsis-single-line'' \<in> set (classNames t) \<longleftrightarrow> cssTextOverflow e props s"
    by (auto simp: t typeClass_neq split: option.splits)
  show "''ellipsis-multiple-line'' \<in> set (classNames t) \<longleftrightarrow> cssLineClamp e props s"
    by (auto simp: t typeClass_neq split: option.splits)
  show "WebkitLineClamp t = (if cssLineClamp e props s then Some (rowCount props) else None)"
    and "measureEnabled t = enabledMeasure e props s"
    and "observerDisabled t = resizeDisabled e props s"
    and "measureRows t = rowCount props"
    and "measureWidth t = ellipsisWidth s"
    and "onClickStartsEdit t \<longleftrightarrow> TriggerText \<in> set (triggerTypes props)"
    by (simp_all add: t)
qed

text \<open>
  C3. When ellipsis is enabled and the instance is not expanded, any of a configured
  suffix, an \<^verbatim>\<open>onEllipsis\<close> callback, \<^verbatim>\<open>expandable\<close>, enabled editing or enabled copying
  rules native truncation out (\<^verbatim>\<open>cssEllipsis\<close> is false, neither native style is
  applied) and selects measured truncation: the helper is told to measure and the
  resize observer is on, and a render that displays the text carries neither native
  truncation class and no line clamp style. The supported styles and the row count
  play no part.
\<close>

theorem blocking_features_force_measurement:
  assumes "enableEllipsis props" and "\<not> expanded s"
    and "suffix (ellipsisConfig props) \<noteq> None \<or>
         onEllipsis (ellipsisConfig props) \<noteq> None \<or>
         truthy (expandable (ellipsisConfig props)) \<or>
         enableEdit props \<or> enableCopy props"
  shows "\<not> cssEllipsis e props s \<and>
         \<not> cssTextOverflow e props s \<and>
         \<not> cssLineClamp e props s \<and>
         enabledMeasure e props s \<and>
         \<not> resizeDisabled e props s \<and>
         (render e props s = TypographyView t \<longrightarrow>
            measureEnabled t \<and> \<not> observerDisabled t \<and> WebkitLineClamp t = None \<and>
            ''ellipsis-single-line'' \<notin> set (classNames t) \<and>
            ''ellipsis-multiple-line'' \<notin> set (classNames t))"
proof -
  have c: "\<not> cssEllipsis e props s"
    using assms(3) by (auto simp: cssEllipsis_def)
  have m: "mergedEnableEllipsis props s"
    using assms(1,2) by (simp add: mergedEnableEllipsis_def)
  from c m have flags: "\<not> cssTextOverflow e props s \<and> \<not> cssLineClamp e props s \<and>
      enabledMeasure e props s \<and> \<not> resizeDisabled e props s"
    by (simp add: cssTextOverflow_def cssLineClamp_def enabledMeasure_def resizeDisabled_def)
  have shown: "render e props s = TypographyView t \<longrightarrow>
      measureEnabled t \<and> \<not> observerDisabled t \<and> WebkitLineClamp t = None \<and>
      ''ellipsis-single-line'' \<notin> set (classNames t) \<and>
      ''ellipsis-multiple-line'' \<notin> set (classNames t)"
  proof
    assume r: "render e props s = TypographyView t"
    from flags show "measureEnabled t \<and> \<not> observerDisabled t \<and> WebkitLineClamp t = None \<and>
      ''ellipsis-single-line'' \<notin> set (classNames t) \<and>
      ''ellipsis-multiple-line'' \<notin> set (classNames t)"
      by (simp add: render_classes[OF r])
  qed
  from c flags shown show ?thesis by blast
qed

text \<open>
  The instance with \<^verbatim>\<open>ellipsis\<close> and \<^verbatim>\<open>copyable\<close> both set, all styles supported.
\<close>

theorem blocking_features_force_measurement_witness:
  "enableEllipsis copyableProps \<and> \<not> expanded (init copyableProps) \<and>
   enableCopy copyableProps \<and>
   \<not> cssEllipsis bothSupported copyableProps (init copyableProps) \<and>
   enabledMeasure bothSupported copyableProps (init copyableProps)"
proof -
  have h: "enableEllipsis copyableProps" "\<not> expanded (init copyableProps)"
    "enableCopy copyableProps"
    by (simp_all add: copyableProps_def config_defs init_def)
  from h blocking_features_force_measurement[where props = copyableProps
      and s = "init copyableProps" and e = bothSupported]
  show ?thesis by blast
qed

text \<open>
  C4, at the input \<^verbatim>\<open>ellipsis={{ rows: 0 }}\<close> with line clamp supported: the render
  carries the class \<^verbatim>\<open>ellipsis\<close> only, neither native truncation class and no line
  clamp style, and measurement and the resize observer are both off. The row count is
  neither 1 nor above 1, and yet the component does not fall back to measuring.
\<close>

theorem zero_rows_selects_no_truncation:
  "render bothSupported zeroRowsProps (init zeroRowsProps) =
     TypographyView \<lparr>classNames = [''ellipsis''], WebkitLineClamp = None,
       onClickStartsEdit = False, observerDisabled = True, tooltipEnabledEllipsis = True,
       tooltipIsEllipsis = False, measureEnabled = False, measureRows = 0, measureWidth = 0\<rparr>"
  by (simp add: render_def bothSupported_def zeroRowsProps_def init_def plainProps_def
      emptyEllipsisConfig_def isEditing_def useMergedState_def editConfig_def enableEdit_def
      enableCopy_def useMergedConfig_def emptyEditConfig_def emptyCopyConfig_def
      enableEllipsis_def ellipsisConfig_def mergeEllipsis_def ellipsisTemplate_def
      mergedEnableEllipsis_def rowCount_def cssTextOverflow_def cssLineClamp_def
      cssEllipsis_def resizeDisabled_def isMergedEllipsis_def enabledMeasure_def
      triggerTypes_def)

text \<open>
  From one row upwards the three-way choice is as described: single-line native
  truncation exactly for one row with text-overflow support, multi-line native
  truncation exactly for more rows with line clamp support, measuring otherwise.
\<close>

lemma native_selection_from_one_row:
  assumes "enableEllipsis props" and "\<not> expanded s"
    and "suffix (ellipsisConfig props) = None"
    and "onEllipsis (ellipsisConfig props) = None"
    and "\<not> truthy (expandable (ellipsisConfig props))"
    and "\<not> enableEdit props" and "\<not> enableCopy props"
    and "1 \<le> rowCount props"
  shows "(cssTextOverflow e props s \<longleftrightarrow> rowCount props = 1 \<and> isTextOverflowSupport e) \<and>
         (cssLineClamp e props s \<longleftrightarrow> rowCount props > 1 \<and> isLineClampSupport e) \<and>
         (enabledMeasure e props s \<longleftrightarrow>
            \<not> cssTextOverflow e props s \<and> \<not> cssLineClamp e props s)"
  using assms
  by (auto simp: cssTextOverflow_def cssLineClamp_def enabledMeasure_def cssEllipsis_def
      mergedEnableEllipsis_def)

text \<open>
  C9. When the configuration gives no row count the row count is 1: the multi-line
  path is never taken, native single-line truncation is selected exactly when ellipsis
  is enabled, the instance is not expanded, no feature rules native truncation out and
  text-overflow is supported, and otherwise an enabled, unexpanded ellipsis is measured.
  A render that displays the text asks the helper for one row, carries the class
  \<^verbatim>\<open>single-line\<close> whenever ellipsis is in effect and never the multi-line class.
\<close>

theorem default_rows_single_line:
  assumes "rows (ellipsisConfig props) = None"
  shows "rowCount props = 1 \<and>
         \<not> cssLineClamp e props s \<and>
         (cssTextOverflow e props s \<longleftrightarrow> cssEllipsis e props s) \<and>
         (cssTextOverflow e props s \<longleftrightarrow>
            enableEllipsis props \<and> \<not> expanded s \<and>
            suffix (ellipsisConfig props) = None \<and>
            onEllipsis (ellipsisConfig props) = None \<and>
            \<not> truthy (expandable (ellipsisConfig props)) \<and>
            \<not> enableEdit props \<and> \<not> enableCopy props \<and>
            isTextOverflowSupport e) \<and>
         (enabledMeasure e props s \<longleftrightarrow>
            enableEllipsis props \<and> \<not> expanded s \<and> \<not> cssTextOverflow e props s) \<and>
         (render e props s = TypographyView t \<longrightarrow>
            measureRows t = 1 \<and> WebkitLineClamp t = None \<and>
            (''single-line'' \<in> set (classNames t) \<longleftrightarrow>
               enableEllipsis props \<and> \<not> expanded s) \<and>
            (''ellipsis-single-line'' \<in> set (classNames t) \<longleftrightarrow> cssTextOverflow e props s) \<and>
            ''ellipsis-multiple-line'' \<notin> set (classNames t))"
proof -
  have r: "rowCount props = 1" using assms by (simp add: rowCount_def)
  have flags: "\<not> cssLineClamp e props s \<and>
         (cssTextOverflow e props s \<longleftrightarrow> cssEllipsis e props s) \<and>
         (cssTextOverflow e props s \<longleftrightarrow>
            enableEllipsis props \<and> \<not> expanded s \<and>
            suffix (ellipsisConfig props) = None \<and>
            onEllipsis (ellipsisConfig props) = None \<and>
            \<not> truthy (expandable (ellipsisConfig props)) \<and>
            \<not> enableEdit props \<and> \<not> enableCopy props \<and>
            isTextOverflowSupport e) \<and>
         (enabledMeasure e props s \<longleftrightarrow>
            enableEllipsis props \<and> \<not> expanded s \<and> \<not> cssTextOverflow e props s)"
    by (auto simp: r cssLineClamp_def cssTextOverflow_def cssEllipsis_def enabledMeasure_def
        mergedEnableEllipsis_def)
  have shown: "render e props s = TypographyView t \<longrightarrow>
            measureRows t = 1 \<and> WebkitLineClamp t = None \<and>
            (''single-line'' \<in> set (classNames t) \<longleftrightarrow>
               enableEllipsis props \<and> \<not> expanded s) \<and>
            (''ellipsis-single-line'' \<in> set (classNames t) \<longleftrightarrow> cssTextOverflow e props s) \<and>
            ''ellipsis-multiple-line'' \<notin> set (classNames t)"
  proof
    assume v: "render e props s = TypographyView t"
    from flags show "measureRows t = 1 \<and> WebkitLineClamp t = None \<and>
            (''single-line'' \<in> set (classNames t) \<longleftrightarrow>
               enableEllipsis props \<and> \<not> expanded s) \<and>
            (''ellipsis-single-line'' \<in> set (classNames t) \<longleftrightarrow> cssTextOverflow e props s) \<and>
            ''ellipsis-multiple-line'' \<notin> set (classNames t)"
      by (simp add: render_classes[OF v] r mergedEnableEllipsis_def)
  qed
  from r flags shown show ?thesis by blast
qed

text \<open>
  The instance with \<^verbatim>\<open>ellipsis\<close> set to true, all styles supported.
\<close>

theorem default_rows_single_line_witness:
  "rows (ellipsisConfig ellipsisProps) = None \<and> rowCount ellipsisProps = 1 \<and>
   cssTextOverflow bothSupported ellipsisProps (init ellipsisProps) \<and>
   \<not> enabledMeasure bothSupported ellipsisProps (init ellipsisProps)"
proof -
  have h: "rows (ellipsisConfig ellipsisProps) = None" "enableEllipsis ellipsisProps"
    "\<not> expanded (init ellipsisProps)" "suffix (ellipsisConfig ellipsisProps) = None"
    "onEllipsis (ellipsisConfig ellipsisProps) = None"
    "\<not> truthy (expandable (ellipsisConfig ellipsisProps))"
    "\<not> enableEdit ellipsisProps" "\<not> enableCopy ellipsisProps"
    "isTextOverflowSupport bothSupported"
    by (simp_all add: ellipsisProps_def config_defs init_def)
  from h default_rows_single_line[OF h(1), where e = bothSupported
      and s = "init ellipsisProps"]
  show ?thesis by blast
qed

text \<open>
  C10. A measurement report equal to the current \<^verbatim>\<open>isJsEllipsis\<close> leaves the state as
  it is and invokes nothing; whenever a report does invoke a callback, the reported
  value differs from the state, the state takes the new value, and the callback is the
  configured \<^verbatim>\<open>onEllipsis\<close> called with the new value.
\<close>

theorem onEllipsis_only_on_change:
  "onJsEllipsis props (isJsEllipsis s) s = (s, []) \<and>
   (mounted s \<longrightarrow> step e props (Measured (isJsEllipsis s)) s = (s, [])) \<and>
   (x \<in> set (snd (onJsEllipsis props b s)) \<longrightarrow>
      isJsEllipsis s \<noteq> b \<and> isJsEllipsis (fst (onJsEllipsis props b s)) = b \<and>
      (\<exists>f. onEllipsis (ellipsisConfig props) = Some f \<and> x = Invoke f (BoolArg b))) \<and>
   (x \<in> set (snd (step e props (Measured b) s)) \<longrightarrow> isJsEllipsis s \<noteq> b)"
proof -
  have a: "onJsEllipsis props (isJsEllipsis s) s = (s, [])"
    by (simp add: onJsEllipsis_def)
  have b: "mounted s \<longrightarrow> step e props (Measured (isJsEllipsis s)) s = (s, [])"
    by (simp add: step_def a split: view.splits)
  have c: "x \<in> set (snd (onJsEllipsis props b s)) \<longrightarrow>
      isJsEllipsis s \<noteq> b \<and> isJsEllipsis (fst (onJsEllipsis props b s)) = b \<and>
      (\<exists>f. onEllipsis (ellipsisConfig props) = Some f \<and> x = Invoke f (BoolArg b))"
    by (auto simp: onJsEllipsis_def call_def split: if_splits option.splits)
  have d: "x \<in> set (snd (step e props (Measured b) s)) \<longrightarrow> isJsEllipsis s \<noteq> b"
    using c by (auto simp: step_def split: view.splits if_splits)
  from a b c d show ?thesis by blast
qed

text \<open>
  The instance with \<^verbatim>\<open>ellipsis={{ rows: 2, onEllipsis }}\<close>: a report of false changes
  nothing, a report of true calls \<^verbatim>\<open>onEllipsis(true)\<close>.
\<close>

theorem onEllipsis_only_on_change_witness:
  "mounted (init measuredProps) \<and>
   step bothSupported measuredProps (Measured False) (init measuredProps) =
     (init measuredProps, []) \<and>
   Invoke (Callback 4) (BoolArg True) \<in>
     set (snd (onJsEllipsis measuredProps True (init measuredProps))) \<and>
   isJsEllipsis (init measuredProps) \<noteq> True"
proof -
  have h: "mounted (init measuredProps)" "isJsEllipsis (init measuredProps) = False"
    by (simp_all add: init_def)
  have m: "Invoke (Callback 4) (BoolArg True) \<in>
     set (snd (onJsEllipsis measuredProps True (init measuredProps)))"
    by (simp add: onJsEllipsis_def init_def measuredProps_def config_defs call_def)
  from h m onEllipsis_only_on_change[where props = measuredProps
      and s = "init measuredProps" and e = bothSupported
      and x = "Invoke (Callback 4) (BoolArg True)" and b = True]
  show ?thesis by simp
qed

subsection \<open>Copy\<close>

text \<open>
  C5. In every state an instance can reach, a copy trigger sets \<^verbatim>\<open>copied\<close> at once and
  leaves exactly one pending reset, due 3000 ms later. Before that the flag stays set
  and nothing fires; from 3000 ms on the reset has fired and the flag is false. A second
  trigger \<open>early\<close> ms after the first (before expiry) leaves again exactly one pending
  reset, a fresh one due 3000 ms after the second trigger, so the first reset is
  cancelled and the window restarts. Unmounting leaves no pending reset, and nothing
  fires afterwards.
\<close>

theorem copy_acknowledgment_window:
  assumes reach: "s = fst (run e tr (init props0))"
    and shown: "mounted s" "\<not> isEditing props s" "enableCopy props"
    and s1: "s1 = fst (step e props ClickCopy s)"
    and s2: "s2 = fst (step e props (Elapsed early) s1)"
    and s3: "s3 = fst (step e props ClickCopy s2)"
  shows "copied s1 \<and> timers s1 = [(nextTimerId s, now s + 3000)] \<and>
    (dt < 3000 \<longrightarrow>
       copied (fst (step e props' (Elapsed dt) s1)) \<and>
       timers (fst (step e props' (Elapsed dt) s1)) = timers s1 \<and>
       snd (step e props' (Elapsed dt) s1) = []) \<and>
    (3000 \<le> dt \<longrightarrow>
       \<not> copied (fst (step e props' (Elapsed dt) s1)) \<and>
       timers (fst (step e props' (Elapsed dt) s1)) = [] \<and>
       snd (step e props' (Elapsed dt) s1) = [TimeoutFired (nextTimerId s)]) \<and>
    (early < 3000 \<longrightarrow>
       copied s3 \<and> timers s3 = [(Suc (nextTimerId s), now s + early + 3000)] \<and>
       (dt < 3000 \<longrightarrow> copied (fst (step e props' (Elapsed dt) s3))) \<and>
       (3000 \<le> dt \<longrightarrow> \<not> copied (fst (step e props' (Elapsed dt) s3)))) \<and>
    timers (fst (step e props' Unmounted s1)) = [] \<and>
    snd (run e tr' (fst (step e props' Unmounted s1))) = []"
proof -
  have inv: "timerInv s"
    unfolding reach by (rule run_timerInv[OF timerInv_init])
  have s1': "s1 = fst (onCopyClick props s)"
    using shown by (simp add: s1 step_ClickCopy)
  note f1 = onCopyClick_fields[OF inv, of props, folded s1']
  have inv1: "timerInv s1" unfolding s1' using inv by (rule onCopyClick_timerInv)
  have a: "copied s1 \<and> timers s1 = [(nextTimerId s, now s + 3000)]"
    using f1 by simp
  have b: "dt < 3000 \<longrightarrow>
       copied (fst (step e props' (Elapsed dt) s1)) \<and>
       timers (fst (step e props' (Elapsed dt) s1)) = timers s1 \<and>
       snd (step e props' (Elapsed dt) s1) = []"
    using f1 by (simp add: step_def elapse_def Let_def)
  have c: "3000 \<le> dt \<longrightarrow>
       \<not> copied (fst (step e props' (Elapsed dt) s1)) \<and>
       timers (fst (step e props' (Elapsed dt) s1)) = [] \<and>
       snd (step e props' (Elapsed dt) s1) = [TimeoutFired (nextTimerId s)]"
    using f1 shown(1) by (simp add: step_def elapse_def Let_def)
  have d: "early < 3000 \<longrightarrow>
       copied s3 \<and> timers s3 = [(Suc (nextTimerId s), now s + early + 3000)] \<and>
       (dt < 3000 \<longrightarrow> copied (fst (step e props' (Elapsed dt) s3))) \<and>
       (3000 \<le> dt \<longrightarrow> \<not> copied (fst (step e props' (Elapsed dt) s3)))"
  proof
    assume early: "early < 3000"
    have s2': "s2 = fst (elapse early s1)" by (simp add: s2 step_def)
    have inv2: "timerInv s2" unfolding s2' using inv1 by (rule elapse_timerInv)
    have g2: "mounted s2" "nextTimerId s2 = Suc (nextTimerId s)" "now s2 = now s + early"
      using f1 shown(1) by (simp_all add: s2' elapse_def Let_def)
    have "\<not> isEditing props s2"
      using shown(2) by (simp add: s2' s1' isEditing_frame)
    then have s3': "s3 = fst (onCopyClick props s2)"
      using g2(1) shown(3) by (simp add: s3 step_ClickCopy)
    note f3 = onCopyClick_fields[OF inv2, of props, folded s3']
    show "copied s3 \<and> timers s3 = [(Suc (nextTimerId s), now s + early + 3000)] \<and>
       (dt < 3000 \<longrightarrow> copied (fst (step e props' (Elapsed dt) s3))) \<and>
       (3000 \<le> dt \<longrightarrow> \<not> copied (fst (step e props' (Elapsed dt) s3)))"
      using f3 g2 by (simp add: step_def elapse_def Let_def)
  qed
  have m1: "mounted s1" using f1 shown(1) by simp
  have u: "timers (fst (step e props' Unmounted s1)) = []"
    using m1 inv1 by (simp add: step_def unmount_timers)
  have "\<not> mounted (fst (step e props' Unmounted s1))"
    using m1 by (simp add: step_def unmount_def)
  then have q: "snd (run e tr' (fst (step e props' Unmounted s1))) = []"
    using u by (rule run_unmounted_quiet)
  from a b c d u q show ?thesis by blast
qed

text \<open>
  The copyable instance: a trigger at time 0, a second one at 1000 ms; 2500 ms later
  (3500 ms after the first trigger) the flag is still set.
\<close>

theorem copy_acknowledgment_window_witness:
  "copied (fst (step bothSupported copyableProps ClickCopy (init copyableProps))) \<and>
   timers (fst (step bothSupported copyableProps ClickCopy (init copyableProps))) =
     [(0, 3000)] \<and>
   timers (fst (step bothSupported copyableProps ClickCopy
     (fst (step bothSupported copyableProps (Elapsed 1000)
       (fst (step bothSupported copyableProps ClickCopy (init copyableProps))))))) =
     [(1, 4000)] \<and>
   copied (fst (step bothSupported copyableProps (Elapsed 2500)
     (fst (step bothSupported copyableProps ClickCopy
       (fst (step bothSupported copyableProps (Elapsed 1000)
         (fst (step bothSupported copyableProps ClickCopy (init copyableProps))))))))) \<and>
   timers (fst (step bothSupported copyableProps Unmounted
     (fst (step bothSupported copyableProps ClickCopy (init copyableProps))))) = []"
proof -
  have h: "mounted (init copyableProps)" "\<not> isEditing copyableProps (init copyableProps)"
    "enableCopy copyableProps"
    by (simp_all add: copyableProps_def config_defs render_defs)
  have r: "init copyableProps = fst (run bothSupported [] (init copyableProps))" by simp
  from copy_acknowledgment_window[OF r h refl refl refl, where early = 1000 and dt = 2500
      and props' = copyableProps and tr' = "[]"]
  show ?thesis by (simp add: init_def)
qed

text \<open>
  With the configuration object as built from the prop, a trigger writes the
  configured text when the configuration has one and the stringified children
  otherwise, leaves the text it wrote in the object, and invokes \<^verbatim>\<open>onCopy\<close> (when
  configured) after the write. The initial state holds such an object.
\<close>

lemma copy_text_from_fresh_object:
  assumes "currentCopyConfig props s = copyConfig props"
  shows "snd (onCopyClick props s) =
           ClipboardWrite (case copyText (copyConfig props) of
                             Some t \<Rightarrow> t | None \<Rightarrow> String' (children props))
           # call (onCopy (copyConfig props)) NoArg"
    and "copyConfigMemo (fst (onCopyClick props s)) =
           Some (copyable props,
                 (copyConfig props)\<lparr>copyText :=
                    Some (case copyText (copyConfig props) of
                            Some t \<Rightarrow> t | None \<Rightarrow> String' (children props))\<rparr>)"
  by (simp_all add: onCopyClick_def assms fillCopyText_def textOrEmpty_def Let_def
      case_prod_beta setTimeout_def cleanCopyId_def clearTimeout_def
      split: option.splits)

lemma copy_text_first_trigger:
  "currentCopyConfig props (init props) = copyConfig props"
  by (simp add: currentCopyConfig_def init_def)

text \<open>
  With an object that a trigger has written into and the same prop, a trigger writes
  the text the object holds, whatever the children are by then.
\<close>

lemma copy_text_from_written_object:
  assumes "copyConfigMemo s = Some (copyable props, obj)" and "copyText obj = Some x"
  shows "snd (onCopyClick props s) = ClipboardWrite x # call (onCopy obj) NoArg"
  using assms
  by (simp add: onCopyClick_def currentCopyConfig_def fillCopyText_def textOrEmpty_def
      Let_def case_prod_beta)

text \<open>
  C7, at the input \<^verbatim>\<open>copyable={true}\<close> with children \<^verbatim>\<open>hello\<close>, a copy trigger, a render
  with children \<^verbatim>\<open>world\<close> and a second copy trigger: both triggers write \<^verbatim>\<open>hello\<close>.
  The first trigger stored the stringified children in the configuration object, the
  prop is unchanged, so the second trigger finds a text there and does not read the
  children of its render.
\<close>

theorem second_copy_writes_first_children:
  "snd (run bothSupported [(copyHelloProps, ClickCopy), (copyWorldProps, ClickCopy)]
          (init copyHelloProps)) =
     [ClipboardWrite ''hello'', ClipboardWrite ''hello''] \<and>
   String' (children copyWorldProps) = ''world'' \<and>
   copyText (copyConfig copyWorldProps) = None"
proof -
  have c: "copyable copyHelloProps = Flag True" "copyable copyWorldProps = Flag True"
    "children copyHelloProps = Text ''hello''" "children copyWorldProps = Text ''world''"
    "copyConfig copyHelloProps = emptyCopyConfig" "copyConfig copyWorldProps = emptyCopyConfig"
    "enableCopy copyHelloProps" "enableCopy copyWorldProps"
    by (simp_all add: copyHelloProps_def copyWorldProps_def config_defs)
  have e: "\<not> isEditing copyHelloProps s" "\<not> isEditing copyWorldProps s"
    if "\<not> innerEditing s" for s
    using that
    by (simp_all add: isEditing_def useMergedState_def copyHelloProps_def copyWorldProps_def
        config_defs)
  have i: "mounted (init copyHelloProps)" "\<not> innerEditing (init copyHelloProps)"
    by (simp_all add: init_def useMergedState_def copyHelloProps_def config_defs)
  have r0: "rerender copyHelloProps (init copyHelloProps) = init copyHelloProps"
    by (simp add: rerender_def useMergedCopyConfig_def currentCopyConfig_def init_def)
  have first: "step bothSupported copyHelloProps ClickCopy (init copyHelloProps) =
      onCopyClick copyHelloProps (init copyHelloProps)"
    using i e(1)[of "init copyHelloProps"] c(7) by (simp add: step_def render_def)
  have w1: "snd (onCopyClick copyHelloProps (init copyHelloProps)) = [ClipboardWrite ''hello'']"
    by (simp add: copy_text_from_fresh_object(1)[OF copy_text_first_trigger] c
        emptyCopyConfig_def call_def)
  define s1 where "s1 = fst (onCopyClick copyHelloProps (init copyHelloProps))"
  have m1: "copyConfigMemo s1 =
      Some (Flag True, emptyCopyConfig\<lparr>copyText := Some ''hello''\<rparr>)"
    unfolding s1_def
    by (simp add: copy_text_from_fresh_object(2)[OF copy_text_first_trigger] c
        emptyCopyConfig_def)
  have f1: "mounted s1" "\<not> innerEditing s1"
    unfolding s1_def using i
    by (simp_all add: onCopyClick_def Let_def case_prod_beta setTimeout_def
        cleanCopyId_frame)
  define s2 where "s2 = rerender copyWorldProps s1"
  have m2: "copyConfigMemo s2 =
      Some (copyable copyWorldProps, emptyCopyConfig\<lparr>copyText := Some ''hello''\<rparr>)"
    unfolding s2_def using f1(1) m1
    by (simp add: rerender_def useMergedCopyConfig_def currentCopyConfig_def c)
  have f2: "mounted s2" "\<not> innerEditing s2"
    unfolding s2_def using f1 by (simp_all add: rerender_frame)
  have second: "step bothSupported copyWorldProps ClickCopy s2 =
      onCopyClick copyWorldProps s2"
    using f2 e(2)[of s2] c(8) by (simp add: step_def render_def)
  have w2: "snd (onCopyClick copyWorldProps s2) = [ClipboardWrite ''hello'']"
    by (simp add: copy_text_from_written_object[OF m2] emptyCopyConfig_def call_def)
  have "snd (run bothSupported [(copyHelloProps, ClickCopy), (copyWorldProps, ClickCopy)]
          (init copyHelloProps)) =
      snd (onCopyClick copyHelloProps (init copyHelloProps)) @
      snd (onCopyClick copyWorldProps s2)"
    by (simp add: case_prod_beta r0 first s1_def[symmetric] s2_def[symmetric] second)
  then show ?thesis
    using w1 w2 c by (simp add: emptyCopyConfig_def)
qed

subsection \<open>Edit\<close>

lemma controlled_enableEdit:
  "editing (editConfig props) = Some v \<Longrightarrow> enableEdit props"
  by (cases "editable props")
     (simp_all add: editConfig_def enableEdit_def useMergedConfig_def emptyEditConfig_def)

lemma controlled_isEditing: "editing (editConfig props) = Some v \<Longrightarrow> isEditing props s = v"
  by (simp add: isEditing_def useMergedState_def)

text \<open>
  C6. When \<^verbatim>\<open>editConfig.editing\<close> is defined, the editing state that is read and
  rendered is that value in every state: before and after any event, and after any
  sequence of events; the editor is rendered exactly when the value is true. The
  handlers still invoke \<^verbatim>\<open>onStart\<close>, \<^verbatim>\<open>onChange\<close> (with the new text) and \<^verbatim>\<open>onCancel\<close>,
  and the save, cancel, icon and text actions still reach these handlers.
\<close>

theorem controlled_editing_mirrors_prop:
  assumes "editing (editConfig props) = Some v"
  shows "isEditing props s = v \<and>
    isEditing props (fst (step e props' ev s)) = v \<and>
    isEditing props (fst (run e tr s)) = v \<and>
    ((\<exists>x. render e props s = EditableView x) \<longleftrightarrow> v) \<and>
    snd (onEditClick props s) = call (onStart (editConfig props)) NoArg \<and>
    snd (onEditChange props x s) = call (onChange (editConfig props)) (StringArg x) \<and>
    snd (onEditCancel props s) = call (onCancel (editConfig props)) NoArg \<and>
    (mounted s \<and> v \<longrightarrow>
       step e props (Save x) s = onEditChange props x s \<and>
       step e props Cancel s = onEditCancel props s) \<and>
    (mounted s \<and> \<not> v \<and> TriggerIcon \<in> set (triggerTypes props) \<longrightarrow>
       step e props ClickEditIcon s = onEditClick props s) \<and>
    (mounted s \<and> \<not> v \<and> TriggerText \<in> set (triggerTypes props) \<longrightarrow>
       step e props ClickText s = onEditClick props s)"
proof -
  note m = controlled_isEditing[OF assms]
  have en: "enableEdit props" using assms by (rule controlled_enableEdit)
  have r: "(\<exists>x. render e props s = EditableView x) \<longleftrightarrow> v"
    by (simp add: render_def m)
  have cb: "snd (onEditClick props s) = call (onStart (editConfig props)) NoArg"
    "snd (onEditChange props x s) = call (onChange (editConfig props)) (StringArg x)"
    "snd (onEditCancel props s) = call (onCancel (editConfig props)) NoArg"
    by (simp_all add: onEditClick_def onEditChange_def onEditCancel_def triggerEdit_def)
  have sv: "mounted s \<and> v \<longrightarrow>
       step e props (Save x) s = onEditChange props x s \<and>
       step e props Cancel s = onEditCancel props s"
    by (simp add: step_def render_def m)
  have ic: "mounted s \<and> \<not> v \<and> TriggerIcon \<in> set (triggerTypes props) \<longrightarrow>
       step e props ClickEditIcon s = onEditClick props s"
    using en by (simp add: step_def render_def m renderEdit_def)
  have tx: "mounted s \<and> \<not> v \<and> TriggerText \<in> set (triggerTypes props) \<longrightarrow>
       step e props ClickText s = onEditClick props s"
    by (simp add: step_def render_def m)
  from m[of s] m[of "fst (step e props' ev s)"] m[of "fst (run e tr s)"] r cb sv ic tx
  show ?thesis by blast
qed

text \<open>
  The instance with \<^verbatim>\<open>editable={{ editing: false, onStart }}\<close>: activating the edit
  icon calls \<^verbatim>\<open>onStart\<close> and the instance still displays its text.
\<close>

theorem controlled_editing_mirrors_prop_witness:
  "editing (editConfig controlledProps) = Some False \<and>
   \<not> isEditing controlledProps
       (fst (step bothSupported controlledProps ClickEditIcon (init controlledProps))) \<and>
   snd (step bothSupported controlledProps ClickEditIcon (init controlledProps)) =
     [Invoke (Callback 2) NoArg]"
proof -
  have h: "editing (editConfig controlledProps) = Some False"
    "mounted (init controlledProps)" "TriggerIcon \<in> set (triggerTypes controlledProps)"
    "call (onStart (editConfig controlledProps)) NoArg = [Invoke (Callback 2) NoArg]"
    by (simp_all add: controlledProps_def config_defs init_def call_def)
  note t = controlled_editing_mirrors_prop[OF h(1), where s = "init controlledProps"
      and e = bothSupported and props' = controlledProps and ev = ClickEditIcon and tr = "[]"
      and x = "[]"]
  from t have a: "\<not> isEditing controlledProps
       (fst (step bothSupported controlledProps ClickEditIcon (init controlledProps)))"
    by blast
  from t h(2,3) have b: "step bothSupported controlledProps ClickEditIcon (init controlledProps) =
      onEditClick controlledProps (init controlledProps)"
    by blast
  from t have c: "snd (onEditClick controlledProps (init controlledProps)) =
      call (onStart (editConfig controlledProps)) NoArg"
    by blast
  from h(1) a show ?thesis by (simp add: b c h(4))
qed

lemma occurs_wrap: "occurs c (wrap needed tag n) = occurs c n"
  by (simp add: wrap_def)

lemma occurs_wrapperDecorations: "occurs c (wrapperDecorations props n) = occurs c n"
  by (simp add: wrapperDecorations_def occurs_wrap)

lemma occurs_renderContent:
  "occurs EditControl (renderContent props s n needEllipsis) \<longleftrightarrow>
     occurs EditControl n \<or> renderEdit props = Control EditControl"
  by (auto simp: renderContent_def occurs_wrapperDecorations renderSuffix_def
      renderOperations_def renderExpand_def renderEdit_def renderCopy_def
      split: option.splits)

text \<open>
  C8 (as amended). While the instance displays its text, the edit icon control is
  rendered (it occurs in the content built around the node of the measuring helper,
  which itself holds no such control) exactly when editing is enabled and the trigger
  types contain the icon; while it is editing, the editor is rendered and no edit icon. The trigger types
  default to the icon alone. A click on the text body does something only when the
  trigger types contain the text, and then (mounted, displaying) it starts editing.
\<close>

theorem edit_icon_shown_in_display:
  "(\<not> occurs EditControl n \<longrightarrow>
      (showsEditIcon e props s n needEllipsis \<longleftrightarrow>
         \<not> isEditing props s \<and> enableEdit props \<and> TriggerIcon \<in> set (triggerTypes props))) \<and>
   (triggerType (editConfig props) = None \<longrightarrow> triggerTypes props = [TriggerIcon]) \<and>
   (step e props ClickText s \<noteq> (s, []) \<longrightarrow> TriggerText \<in> set (triggerTypes props)) \<and>
   (mounted s \<and> \<not> isEditing props s \<and> TriggerText \<in> set (triggerTypes props) \<longrightarrow>
      step e props ClickText s = onEditClick props s \<and>
      isEditing props (fst (step e props ClickText s)) =
        (case editing (editConfig props) of None \<Rightarrow> True | Some v \<Rightarrow> v))"
proof -
  have a: "\<not> occurs EditControl n \<longrightarrow>
      (showsEditIcon e props s n needEllipsis \<longleftrightarrow>
         \<not> isEditing props s \<and> enableEdit props \<and> TriggerIcon \<in> set (triggerTypes props))"
    by (simp add: showsEditIcon_def render_def occurs_renderContent renderEdit_def)
  have b: "triggerType (editConfig props) = None \<longrightarrow> triggerTypes props = [TriggerIcon]"
    by (simp add: triggerTypes_def)
  have c: "step e props ClickText s \<noteq> (s, []) \<longrightarrow> TriggerText \<in> set (triggerTypes props)"
    by (auto simp: step_def render_def split: if_splits)
  have d: "mounted s \<and> \<not> isEditing props s \<and> TriggerText \<in> set (triggerTypes props) \<longrightarrow>
      step e props ClickText s = onEditClick props s \<and>
      isEditing props (fst (step e props ClickText s)) =
        (case editing (editConfig props) of None \<Rightarrow> True | Some v \<Rightarrow> v)"
    by (simp add: step_def render_def onEditClick_def triggerEdit_def setEditing_def
        isEditing_def useMergedState_def split: option.splits)
  from a b c d show ?thesis by blast
qed

text \<open>
  The instance with \<^verbatim>\<open>editable\<close> set to true shows the icon; the one with
  \<^verbatim>\<open>editable={{ triggerType: ['text'] }}\<close> shows none and starts editing on a click on
  its text.
\<close>

theorem edit_icon_shown_in_display_witness:
  "showsEditIcon bothSupported editableProps (init editableProps) (Text ''hello'') False \<and>
   triggerTypes editableProps = [TriggerIcon] \<and>
   \<not> showsEditIcon bothSupported textTriggerProps (init textTriggerProps)
       (Text ''hello'') False \<and>
   isEditing textTriggerProps
     (fst (step bothSupported textTriggerProps ClickText (init textTriggerProps)))"
proof -
  have h: "\<not> isEditing editableProps (init editableProps)" "enableEdit editableProps"
    "triggerType (editConfig editableProps) = None"
    "TriggerIcon \<in> set (triggerTypes editableProps)"
    "mounted (init textTriggerProps)" "\<not> isEditing textTriggerProps (init textTriggerProps)"
    "TriggerText \<in> set (triggerTypes textTriggerProps)"
    "TriggerIcon \<notin> set (triggerTypes textTriggerProps)"
    by (simp_all add: editableProps_def textTriggerProps_def config_defs render_defs)
  have n: "editing (editConfig textTriggerProps) = None"
    by (simp add: textTriggerProps_def config_defs)
  have o: "\<not> occurs EditControl (Text ''hello'')" by simp
  note icon = edit_icon_shown_in_display[where e = bothSupported and props = editableProps
      and s = "init editableProps" and n = "Text ''hello''" and needEllipsis = False]
  note body = edit_icon_shown_in_display[where e = bothSupported and props = textTriggerProps
      and s = "init textTriggerProps" and n = "Text ''hello''" and needEllipsis = False]
  from icon h o
  have a: "showsEditIcon bothSupported editableProps (init editableProps) (Text ''hello'') False"
    and b: "triggerTypes editableProps = [TriggerIcon]"
    by blast+
  from body h o
  have c: "\<not> showsEditIcon bothSupported textTriggerProps (init textTriggerProps)
      (Text ''hello'') False"
    and d: "isEditing textTriggerProps
        (fst (step bothSupported textTriggerProps ClickText (init textTriggerProps))) =
      (case editing (editConfig textTriggerProps) of None \<Rightarrow> True | Some v \<Rightarrow> v)"
    by blast+
  from a b c d show ?thesis by (simp add: n)
qed

text \<open>
  C8 as stated fails: with \<^verbatim>\<open>editable\<close> set to true, editing is enabled and the trigger
  types contain the icon, yet after the icon is activated the render is the editor and
  shows no edit icon.
\<close>

theorem edit_icon_hidden_while_editing_counterexample:
  "enableEdit editableProps \<and>
   TriggerIcon \<in> set (triggerTypes editableProps) \<and>
   \<not> showsEditIcon bothSupported editableProps
       (fst (step bothSupported editableProps ClickEditIcon (init editableProps)))
       (Text ''hello'') False"
  by (simp add: showsEditIcon_def render_def step_def renderEdit_def editableProps_def
      plainProps_def init_def isEditing_def useMergedState_def editConfig_def enableEdit_def
      useMergedConfig_def emptyEditConfig_def triggerTypes_def onEditClick_def
      triggerEdit_def setEditing_def)

end
